theory Spec2Isabelle
  imports Complex_Main
begin

section \<open>Investment growth calculator: the 30-year projection\<close>

text \<open>
  The two scripts \<^verbatim>\<open>investment_calc.py\<close> and \<^verbatim>\<open>investment_calc_branded_v2.py\<close>
  read four sidebar inputs and, when the Calculate button is clicked, either warn or run a
  month-by-month compounding loop that appends one dictionary per simulated year.

  Amounts are Python floats in the source. They are modelled as \<^typ>\<open>real\<close>: every
  statement below is about the arithmetic the loop performs, read in exact real
  arithmetic, not about the rounding of binary floating point. The loop counter \<open>m\<close>
  ranges over \<^verbatim>\<open>range(1, months + 1)\<close>, so it is a positive integer and is modelled as
  \<^typ>\<open>nat\<close>; on such values \<^verbatim>\<open>//\<close> and \<^verbatim>\<open>%\<close> are \<open>div\<close> and \<open>mod\<close>.
\<close>

subsection \<open>Data model\<close>

text \<open>One dictionary appended to \<^verbatim>\<open>data\<close>; the field names are the dictionary keys.\<close>

record snapshot =
  Year :: nat
  Total_Amount :: real
  Monthly_Installment :: real
  Total_Capital_Contributed :: real
  Investment_Return :: real

text \<open>The variables the loop mutates.\<close>

record loop_state =
  current_balance :: real
  current_monthly_installment :: real
  total_capital :: real
  data :: "snapshot list"

text \<open>The keys of \<^verbatim>\<open>return_options\<close> and the dictionary itself.\<close>

datatype profile = Cash | Balanced | Equity

fun return_options :: "profile \<Rightarrow> real" where
  "return_options Cash = 0.06"
| "return_options Balanced = 0.10"
| "return_options Equity = 0.13"

definition months :: nat where
  "months = 30 * 12"

definition milestones :: "nat list" where
  "milestones = [1, 3, 5, 10, 20, 30]"

definition five_year_intervals :: "nat list" where
  "five_year_intervals = [5, 10, 15, 20, 25, 30]"

subsection \<open>The projection loop of \<^verbatim>\<open>investment_calc.py\<close>\<close>

text \<open>
  The assignments before the loop:
  \<^verbatim>\<open>data = []; current_balance = initial_investment;
  current_monthly_installment = monthly_step; total_capital = initial_investment\<close>.
\<close>

definition initial_state :: "real \<Rightarrow> real \<Rightarrow> loop_state" where
  "initial_state initial_investment monthly_step =
     \<lparr>current_balance = initial_investment,
      current_monthly_installment = monthly_step,
      total_capital = initial_investment,
      data = []\<rparr>"

text \<open>
  One iteration of the loop body for month \<open>m\<close>, statement by statement: the escalation,
  the capital tracker, the monthly rate, the balance update, the yearly snapshot.
  Python's \<^verbatim>\<open>(1 + annual_return) ** (1/12)\<close> is \<open>powr\<close> on a positive base, and the three
  values of \<^verbatim>\<open>return_options\<close> all give one.
\<close>

definition loop_body :: "real \<Rightarrow> real \<Rightarrow> nat \<Rightarrow> loop_state \<Rightarrow> loop_state" where
  "loop_body escalation_rate annual_return m s =
     (let installment =
            (if m > 1 \<and> (m - 1) mod 12 = 0
             then current_monthly_installment s * (1 + escalation_rate)
             else current_monthly_installment s);
          capital = total_capital s + installment;
          monthly_return = (1 + annual_return) powr (1 / 12) - 1;
          balance = (current_balance s + installment) * (1 + monthly_return)
      in \<lparr>current_balance = balance,
          current_monthly_installment = installment,
          total_capital = capital,
          data =
            (if m mod 12 = 0
             then data s @
                  [\<lparr>Year = m div 12,
                    Total_Amount = balance,
                    Monthly_Installment = installment,
                    Total_Capital_Contributed = capital,
                    Investment_Return = balance - capital\<rparr>]
             else data s)\<rparr>)"

text \<open>
  The loop \<^verbatim>\<open>for m in range(1, n + 1)\<close> from a given state. The program runs it with
  \<open>n = months\<close>; a smaller \<open>n\<close> gives the state after the first \<open>n\<close> iterations.
\<close>

definition run_loop :: "real \<Rightarrow> real \<Rightarrow> nat \<Rightarrow> loop_state \<Rightarrow> loop_state" where
  "run_loop escalation_rate annual_return n s =
     fold (loop_body escalation_rate annual_return) [1..<n + 1] s"

definition state_after ::
  "real \<Rightarrow> real \<Rightarrow> real \<Rightarrow> real \<Rightarrow> nat \<Rightarrow> loop_state" where
  "state_after initial_investment monthly_step escalation_rate annual_return n =
     run_loop escalation_rate annual_return n
       (initial_state initial_investment monthly_step)"

text \<open>The list \<^verbatim>\<open>data\<close> handed to \<^verbatim>\<open>pd.DataFrame\<close> once the loop has finished.\<close>

definition projection :: "real \<Rightarrow> real \<Rightarrow> real \<Rightarrow> real \<Rightarrow> snapshot list" where
  "projection initial_investment monthly_step escalation_rate annual_return =
     data (state_after initial_investment monthly_step escalation_rate annual_return months)"

subsection \<open>The projection loop of \<^verbatim>\<open>investment_calc_branded_v2.py\<close>\<close>

definition initial_state_branded :: "real \<Rightarrow> real \<Rightarrow> loop_state" where
  "initial_state_branded initial_investment monthly_step =
     \<lparr>current_balance = initial_investment,
      current_monthly_installment = monthly_step,
      total_capital = initial_investment,
      data = []\<rparr>"

definition loop_body_branded :: "real \<Rightarrow> real \<Rightarrow> nat \<Rightarrow> loop_state \<Rightarrow> loop_state" where
  "loop_body_branded escalation_rate annual_return m s =
     (let installment =
            (if m > 1 \<and> (m - 1) mod 12 = 0
             then current_monthly_installment s * (1 + escalation_rate)
             else current_monthly_installment s);
          capital = total_capital s + installment;
          monthly_return = (1 + annual_return) powr (1 / 12) - 1;
          balance = (current_balance s + installment) * (1 + monthly_return)
      in \<lparr>current_balance = balance,
          current_monthly_installment = installment,
          total_capital = capital,
          data =
            (if m mod 12 = 0
             then data s @
                  [\<lparr>Year = m div 12,
                    Total_Amount = balance,
                    Monthly_Installment = installment,
                    Total_Capital_Contributed = capital,
                    Investment_Return = balance - capital\<rparr>]
             else data s)\<rparr>)"

definition projection_branded :: "real \<Rightarrow> real \<Rightarrow> real \<Rightarrow> real \<Rightarrow> snapshot list" where
  "projection_branded initial_investment monthly_step escalation_rate annual_return =
     data (fold (loop_body_branded escalation_rate annual_return) [1..<30 * 12 + 1]
             (initial_state_branded initial_investment monthly_step))"

subsection \<open>The Calculate handler and the milestone table\<close>

text \<open>
  \<^verbatim>\<open>milestone_df = df[df['Year'].isin(milestones)]\<close> keeps the rows whose year is a
  milestone, in the order of \<^verbatim>\<open>df\<close>; \<^verbatim>\<open>set_index("Year")[['Total Amount']]\<close> keeps the
  year and the total of each. The currency formatting of the table cells is presentation
  and is left out.
\<close>

definition milestone_df :: "snapshot list \<Rightarrow> snapshot list" where
  "milestone_df df = filter (\<lambda>row. Year row \<in> set milestones) df"

definition display_df :: "snapshot list \<Rightarrow> (nat \<times> real) list" where
  "display_df df = map (\<lambda>row. (Year row, Total_Amount row)) (milestone_df df)"

definition stacked_df :: "snapshot list \<Rightarrow> snapshot list" where
  "stacked_df df = filter (\<lambda>row. Year row \<in> set five_year_intervals) df"

text \<open>
  What a click on Calculate produces: the warning, or the data frame with the two slices
  derived from it.
\<close>

datatype outcome =
  Warning string
| Results (df: "snapshot list") (summary: "(nat \<times> real) list") (breakdown: "snapshot list")

definition warning_text :: string where
  "warning_text =
     ''Please enter a value greater than 0 for either the Initial Investment or the Monthly Installment.''"

definition calculate :: "real \<Rightarrow> real \<Rightarrow> real \<Rightarrow> profile \<Rightarrow> outcome" where
  "calculate initial_investment monthly_step escalation_input selected_option =
     (let escalation_rate = escalation_input / 100;
          annual_return = return_options selected_option
      in if initial_investment = 0 \<and> monthly_step = 0
         then Warning warning_text
         else (let frame = projection initial_investment monthly_step escalation_rate annual_return
               in Results frame (display_df frame) (stacked_df frame)))"

text \<open>The same handler in the branded script, over its own loop.\<close>

definition calculate_branded :: "real \<Rightarrow> real \<Rightarrow> real \<Rightarrow> profile \<Rightarrow> outcome" where
  "calculate_branded initial_investment monthly_step escalation_input selected_option =
     (let escalation_rate = escalation_input / 100;
          annual_return = return_options selected_option
      in if initial_investment = 0 \<and> monthly_step = 0
         then Warning warning_text
         else (let frame =
                     projection_branded initial_investment monthly_step escalation_rate annual_return
               in Results frame (display_df frame) (stacked_df frame)))"

subsection \<open>Auxiliary notions for the proofs\<close>

text \<open>The dictionary the loop appends at the end of month \<open>m\<close>, read off the state.\<close>

definition snapshot_of :: "nat \<Rightarrow> loop_state \<Rightarrow> snapshot" where
  "snapshot_of m s =
     \<lparr>Year = m div 12,
      Total_Amount = current_balance s,
      Monthly_Installment = current_monthly_installment s,
      Total_Capital_Contributed = total_capital s,
      Investment_Return = current_balance s - total_capital s\<rparr>"

text \<open>The factor by which the balance grows each month.\<close>

definition growth :: "real \<Rightarrow> real" where
  "growth annual_return = 1 + ((1 + annual_return) powr (1 / 12) - 1)"

section \<open>Properties of the loop\<close>

lemma run_loop_0: "run_loop e a 0 s = s"
  by (simp add: run_loop_def)

lemma run_loop_Suc: "run_loop e a (Suc n) s = loop_body e a (Suc n) (run_loop e a n s)"
  by (simp add: run_loop_def)

lemma state_after_0: "state_after i p e a 0 = initial_state i p"
  by (simp add: state_after_def run_loop_0)

lemma state_after_Suc:
  "state_after i p e a (Suc n) = loop_body e a (Suc n) (state_after i p e a n)"
  by (simp add: state_after_def run_loop_Suc)

subsection \<open>One iteration, field by field\<close>

lemma installment_loop_body:
  "current_monthly_installment (loop_body e a m s) =
     (if m > 1 \<and> (m - 1) mod 12 = 0
      then current_monthly_installment s * (1 + e)
      else current_monthly_installment s)"
  by (simp add: loop_body_def Let_def)

lemma capital_loop_body:
  "total_capital (loop_body e a m s) =
     total_capital s + current_monthly_installment (loop_body e a m s)"
  by (simp add: loop_body_def Let_def)

lemma balance_loop_body:
  "current_balance (loop_body e a m s) =
     (current_balance s + current_monthly_installment (loop_body e a m s)) * growth a"
  by (simp add: loop_body_def Let_def growth_def)

lemma data_loop_body:
  "data (loop_body e a m s) =
     (if m mod 12 = 0 then data s @ [snapshot_of m (loop_body e a m s)] else data s)"
  by (simp add: loop_body_def Let_def snapshot_of_def)

lemma year_end_div: "Suc n mod 12 = 0 \<Longrightarrow> Suc n div 12 = Suc (n div 12)"
  by (simp add: div_Suc mod_Suc split: if_splits)

lemma year_end_mult: "Suc n mod 12 = 0 \<Longrightarrow> 12 * Suc (n div 12) = Suc n"
  using year_end_div [of n] mult_div_mod_eq [of 12 "Suc n"] by simp

lemma mid_year_div: "Suc n mod 12 \<noteq> 0 \<Longrightarrow> Suc n div 12 = n div 12"
  by (simp add: div_Suc mod_Suc split: if_splits)

lemma data_state_after:
  "data (state_after i p e a n) =
     map (\<lambda>y. snapshot_of (12 * y) (state_after i p e a (12 * y))) [1..<n div 12 + 1]"
proof (induction n)
  case 0
  show ?case by (simp add: state_after_0 initial_state_def)
next
  case (Suc n)
  show ?case
  proof (cases "Suc n mod 12 = 0")
    case True
    have "data (state_after i p e a (Suc n)) =
          data (state_after i p e a n) @ [snapshot_of (Suc n) (state_after i p e a (Suc n))]"
      using True by (simp add: state_after_Suc [of i p e a n] data_loop_body)
    also have "\<dots> = map (\<lambda>y. snapshot_of (12 * y) (state_after i p e a (12 * y)))
                      ([1..<n div 12 + 1] @ [Suc (n div 12)])"
      by (simp only: map_append list.map Suc.IH year_end_mult [OF True])
    finally show ?thesis
      by (simp add: year_end_div [OF True])
  next
    case False
    have "data (state_after i p e a (Suc n)) = data (state_after i p e a n)"
      using False by (simp add: state_after_Suc [of i p e a n] data_loop_body)
    then show ?thesis
      by (simp add: Suc.IH mid_year_div [OF False])
  qed
qed

lemma projection_eq:
  "projection i p e a =
     map (\<lambda>y. snapshot_of (12 * y) (state_after i p e a (12 * y))) [1..<31]"
proof -
  have "months div 12 + 1 = 31"
    by (simp add: months_def)
  then show ?thesis
    unfolding projection_def data_state_after by (simp only:)
qed

lemma installment_state_after:
  "current_monthly_installment (state_after i p e a n) = p * (1 + e) ^ ((n - 1) div 12)"
proof (induction n)
  case 0
  show ?case by (simp add: state_after_0 initial_state_def)
next
  case (Suc n)
  show ?case
  proof (cases "Suc n > 1 \<and> (Suc n - 1) mod 12 = 0")
    case True
    then obtain k where k: "n = Suc k" and m: "Suc k mod 12 = 0"
      by (cases n) auto
    have "current_monthly_installment (state_after i p e a (Suc n)) =
          current_monthly_installment (state_after i p e a n) * (1 + e)"
      using True by (simp add: state_after_Suc [of i p e a n] installment_loop_body)
    also have "current_monthly_installment (state_after i p e a n) = p * (1 + e) ^ (k div 12)"
      using Suc.IH k by simp
    finally show ?thesis
      by (simp add: k year_end_div [OF m])
  next
    case False
    have eq: "(Suc n - 1) div 12 = (n - 1) div 12"
    proof (cases n)
      case 0
      then show ?thesis by simp
    next
      case (Suc k)
      with False have "Suc k mod 12 \<noteq> 0" by simp
      then show ?thesis using Suc by (simp add: mid_year_div)
    qed
    have "current_monthly_installment (state_after i p e a (Suc n)) =
          current_monthly_installment (state_after i p e a n)"
      by (simp only: state_after_Suc [of i p e a n] installment_loop_body False if_False)
    then show ?thesis
      using eq by (simp add: Suc.IH)
  qed
qed

subsection \<open>The loop as a whole\<close>

lemma run_loop_resume:
  assumes "m \<le> n"
  shows "run_loop e a n s = fold (loop_body e a) [m + 1..<n + 1] (run_loop e a m s)"
proof -
  from assms obtain k where k: "n = m + k"
    by (auto simp: le_iff_add)
  have "[1..<(m + 1) + k] = [1..<m + 1] @ [m + 1..<(m + 1) + k]"
    by (rule upt_add_eq_append) simp
  then have "[1..<n + 1] = [1..<m + 1] @ [m + 1..<n + 1]"
    by (simp add: k add.commute add.left_commute)
  then show ?thesis
    by (simp add: run_loop_def)
qed

lemma projection_length: "length (projection i p e a) = 30"
  by (simp add: projection_eq)

lemma projection_nth:
  assumes "1 \<le> y" "y \<le> 30"
  shows "projection i p e a ! (y - 1) = snapshot_of (12 * y) (state_after i p e a (12 * y))"
proof -
  have "y - 1 < length [1..<31::nat]" using assms by simp
  then have "map (\<lambda>y. snapshot_of (12 * y) (state_after i p e a (12 * y))) [1..<31] ! (y - 1)
        = snapshot_of (12 * (1 + (y - 1))) (state_after i p e a (12 * (1 + (y - 1))))"
    by (simp only: nth_map nth_upt length_upt)
  then show ?thesis using assms by (simp add: projection_eq)
qed

lemma projection_years: "map Year (projection i p e a) = [1..<31]"
proof -
  have "map Year (projection i p e a) = map (\<lambda>y. y) [1..<31]"
    unfolding projection_eq map_map by (rule map_cong) (simp_all add: snapshot_of_def)
  then show ?thesis by simp
qed

lemma installment_nonneg:
  "0 \<le> p \<Longrightarrow> 0 \<le> e \<Longrightarrow> 0 \<le> current_monthly_installment (state_after i p e a n)"
  by (simp add: installment_state_after)

lemma capital_state_after_Suc:
  "total_capital (state_after i p e a (Suc n)) =
     total_capital (state_after i p e a n) + current_monthly_installment (state_after i p e a (Suc n))"
  by (simp add: state_after_Suc capital_loop_body)

lemma balance_state_after_Suc:
  "current_balance (state_after i p e a (Suc n)) =
     (current_balance (state_after i p e a n) + current_monthly_installment (state_after i p e a (Suc n)))
       * growth a"
  by (simp add: state_after_Suc balance_loop_body)

lemma capital_mono:
  assumes "0 \<le> p" "0 \<le> e" "n \<le> n'"
  shows "total_capital (state_after i p e a n) \<le> total_capital (state_after i p e a n')"
proof (rule lift_Suc_mono_le [OF _ \<open>n \<le> n'\<close>])
  fix k
  show "total_capital (state_after i p e a k) \<le> total_capital (state_after i p e a (Suc k))"
    using installment_nonneg [OF assms(1,2), of i a "Suc k"]
    by (simp add: capital_state_after_Suc)
qed

lemma growth_ge_one: "0 \<le> a \<Longrightarrow> 1 \<le> growth a"
  by (simp add: growth_def ge_one_powr_ge_zero)

lemma capital_le_balance:
  assumes "0 \<le> i" "0 \<le> p" "0 \<le> e" "0 \<le> a"
  shows "0 \<le> total_capital (state_after i p e a n) \<and>
         total_capital (state_after i p e a n) \<le> current_balance (state_after i p e a n)"
proof (induction n)
  case 0
  show ?case using assms(1) by (simp add: state_after_0 initial_state_def)
next
  case (Suc n)
  let ?c = "total_capital (state_after i p e a n)"
  let ?b = "current_balance (state_after i p e a n)"
  let ?x = "current_monthly_installment (state_after i p e a (Suc n))"
  have x: "0 \<le> ?x" by (rule installment_nonneg [OF assms(2,3)])
  have g: "1 \<le> growth a" by (rule growth_ge_one [OF assms(4)])
  from Suc.IH x have pos: "0 \<le> ?b + ?x" by linarith
  have "?c + ?x \<le> ?b + ?x" using Suc.IH by simp
  also have "\<dots> = (?b + ?x) * 1" by simp
  also have "\<dots> \<le> (?b + ?x) * growth a"
    by (rule mult_left_mono [OF g pos])
  finally have "?c + ?x \<le> (?b + ?x) * growth a" .
  moreover have "0 \<le> ?c + ?x" using Suc.IH x by linarith
  ultimately show ?case
    by (simp only: capital_state_after_Suc balance_state_after_Suc)
qed

lemma loop_body_branded_eq: "loop_body_branded = loop_body"
  by (intro ext) (simp add: loop_body_branded_def loop_body_def)

lemma projection_branded_eq: "projection_branded i p e a = projection i p e a"
  by (simp add: projection_branded_def projection_def state_after_def run_loop_def
      loop_body_branded_eq initial_state_branded_def initial_state_def months_def)

lemma milestone_years: "filter (\<lambda>y. y \<in> set milestones) [1..<31] = milestones"
  unfolding milestones_def by code_simp

subsection \<open>The Calculate handler\<close>

lemma calculate_zero: "calculate 0 0 e opt = Warning warning_text"
  by (simp add: calculate_def)

lemma calculate_nonzero:
  "\<not> (i = 0 \<and> p = 0) \<Longrightarrow>
   calculate i p e opt =
     Results (projection i p (e / 100) (return_options opt))
       (display_df (projection i p (e / 100) (return_options opt)))
       (stacked_df (projection i p (e / 100) (return_options opt)))"
  by (simp add: calculate_def Let_def)

subsection \<open>The milestone rows\<close>

lemma year_snapshot_of: "Year (snapshot_of (12 * y) s) = y"
  by (simp add: snapshot_of_def)

lemma milestone_df_projection:
  "milestone_df (projection i p e a) =
     map (\<lambda>y. snapshot_of (12 * y) (state_after i p e a (12 * y))) milestones"
proof -
  let ?f = "\<lambda>y. snapshot_of (12 * y) (state_after i p e a (12 * y))"
  have "milestone_df (projection i p e a) =
        map ?f (filter (\<lambda>y. y \<in> set milestones) [1..<31])"
    by (simp add: milestone_df_def projection_eq filter_map comp_def year_snapshot_of)
  then show ?thesis
    by (simp only: milestone_years)
qed

lemma milestone_rows:
  assumes "y \<in> set milestones"
  shows "snapshot_of (12 * y) (state_after i p e a (12 * y)) = projection i p e a ! (y - 1)"
proof -
  from assms have "1 \<le> y" "y \<le> 30"
    by (auto simp: milestones_def)
  then show ?thesis
    by (simp only: projection_nth)
qed

subsection \<open>The months at which the installment escalates\<close>

lemma escalation_months:
  "(m > 1 \<and> (m - 1) mod 12 = 0) \<longleftrightarrow> (\<exists>k\<ge>1. m = 12 * k + 1)" for m :: nat
proof
  assume h: "m > 1 \<and> (m - 1) mod 12 = 0"
  then have "m - 1 = 12 * ((m - 1) div 12)"
    by (simp add: mod_eq_0_iff_dvd)
  with h have "1 \<le> (m - 1) div 12 \<and> m = 12 * ((m - 1) div 12) + 1"
    by (cases "(m - 1) div 12") simp_all
  then show "\<exists>k\<ge>1. m = 12 * k + 1" by blast
next
  assume "\<exists>k\<ge>1. m = 12 * k + 1"
  then show "m > 1 \<and> (m - 1) mod 12 = 0" by auto
qed

subsection \<open>The first year in closed form\<close>

lemma first_year_installment:
  "n \<le> 12 \<Longrightarrow> current_monthly_installment (state_after i p e a n) = p"
  by (simp add: installment_state_after)

lemma balance_first_year:
  "n \<le> 12 \<Longrightarrow>
   current_balance (state_after i p e a n) =
     i * growth a ^ n + p * (\<Sum>k<n. growth a ^ Suc k)"
proof (induction n)
  case 0
  show ?case by (simp add: state_after_0 initial_state_def)
next
  case (Suc n)
  then have ih: "current_balance (state_after i p e a n) =
     i * growth a ^ n + p * (\<Sum>k<n. growth a ^ Suc k)"
    by simp
  have "(\<Sum>k<Suc n. growth a ^ Suc k) = growth a ^ Suc 0 + (\<Sum>k<n. growth a ^ Suc (Suc k))"
    by (rule sum.lessThan_Suc_shift)
  also have "\<dots> = growth a + (\<Sum>k<n. growth a ^ Suc k) * growth a"
    by (simp add: sum_distrib_left sum_distrib_right mult_ac)
  finally have shift:
    "(\<Sum>k<Suc n. growth a ^ Suc k) = growth a + (\<Sum>k<n. growth a ^ Suc k) * growth a" .
  have "current_balance (state_after i p e a (Suc n)) =
        (current_balance (state_after i p e a n) + p) * growth a"
    using Suc.prems by (simp only: balance_state_after_Suc first_year_installment)
  also have "\<dots> = i * growth a ^ Suc n + p * (\<Sum>k<Suc n. growth a ^ Suc k)"
    unfolding ih shift by (simp add: algebra_simps)
  finally show ?case .
qed

lemma growth_power_12: "0 \<le> a \<Longrightarrow> growth a ^ 12 = 1 + a"
proof -
  assume "0 \<le> a"
  then have pos: "0 < 1 + a" by simp
  have "growth a ^ 12 = ((1 + a) powr (1 / 12)) ^ 12"
    by (simp add: growth_def)
  also have "\<dots> = (1 + a) powr (1 / 12 * 12)"
    using pos by (simp add: powr_powr flip: powr_realpow)
  finally show ?thesis using pos by simp
qed

lemma growth_cash_bounds: "1.00486755 < growth 0.06 \<and> growth 0.06 < 1.00486756"
proof -
  have g: "growth 0.06 ^ 12 = 1.06"
    using growth_power_12 [of "0.06"] by simp
  have nn: "0 \<le> growth 0.06"
    using growth_ge_one [of "0.06"] by simp
  have "(1.00486755::real) ^ 12 < growth 0.06 ^ 12"
    unfolding g by (simp add: power_divide)
  then have lo: "1.00486755 < growth 0.06"
    by (rule power_less_imp_less_base) (rule nn)
  have "growth 0.06 ^ 12 < (1.00486756::real) ^ 12"
    unfolding g by (simp add: power_divide)
  then have hi: "growth 0.06 < 1.00486756"
    by (rule power_less_imp_less_base) simp
  from lo hi show ?thesis ..
qed

lemma year1_sum_mono:
  assumes "0 \<le> x" "x \<le> (y::real)"
  shows "(\<Sum>k<n. x ^ Suc k) \<le> (\<Sum>k<n. y ^ Suc k)"
  by (rule sum_mono) (rule power_mono [OF assms(2,1)])

lemma year1_sum_lower: "12386.525 < 1000 * (\<Sum>k<12. (1.00486755::real) ^ Suc k)"
  by (simp add: eval_nat_numeral power_divide)

lemma year1_sum_upper: "1000 * (\<Sum>k<12. (1.00486756::real) ^ Suc k) < 12386.535"
  by (simp add: eval_nat_numeral power_divide)

lemma year1_total_cash:
  "12386.525 < current_balance (state_after 0 1000 0 0.06 12) \<and>
   current_balance (state_after 0 1000 0 0.06 12) < 12386.535"
proof -
  let ?g = "growth 0.06"
  have b: "current_balance (state_after 0 1000 0 0.06 12) = 1000 * (\<Sum>k<12. ?g ^ Suc k)"
    using balance_first_year [of 12 0 1000 0 "0.06"] by simp
  have "(\<Sum>k<12. (1.00486755::real) ^ Suc k) \<le> (\<Sum>k<12. ?g ^ Suc k)"
    using growth_cash_bounds by (intro year1_sum_mono) simp_all
  then have "1000 * (\<Sum>k<12. (1.00486755::real) ^ Suc k) \<le> 1000 * (\<Sum>k<12. ?g ^ Suc k)"
    by (rule mult_left_mono) simp
  with year1_sum_lower have lo: "12386.525 < 1000 * (\<Sum>k<12. ?g ^ Suc k)"
    by (rule less_le_trans)
  have "(\<Sum>k<12. ?g ^ Suc k) \<le> (\<Sum>k<12. (1.00486756::real) ^ Suc k)"
    using growth_cash_bounds growth_ge_one [of "0.06"] by (intro year1_sum_mono) simp_all
  then have "1000 * (\<Sum>k<12. ?g ^ Suc k) \<le> 1000 * (\<Sum>k<12. (1.00486756::real) ^ Suc k)"
    by (rule mult_left_mono) simp
  from this year1_sum_upper have hi: "1000 * (\<Sum>k<12. ?g ^ Suc k) < 12386.535"
    by (rule le_less_trans)
  from lo hi show ?thesis
    unfolding b ..
qed

lemma calculate_example_year1:
  "Year (df (calculate 0 1000 0 Cash) ! 0) = 1 \<and>
   Total_Amount (df (calculate 0 1000 0 Cash) ! 0) = current_balance (state_after 0 1000 0 0.06 12)"
proof -
  have "df (calculate 0 1000 0 Cash) = projection 0 1000 0 0.06"
    by (simp add: calculate_def Let_def)
  moreover have "projection 0 1000 0 0.06 ! 0 = snapshot_of 12 (state_after 0 1000 0 0.06 12)"
    using projection_nth [of 1 0 1000 0 "0.06"] by simp
  ultimately show ?thesis
    by (simp add: snapshot_of_def)
qed

lemma return_options_nonneg: "a \<in> {0.06, 0.10, 0.13} \<Longrightarrow> 0 \<le> (a::real)"
  by auto

section \<open>The claims of the specification\<close>

text \<open>
  Claim C1. For every month \<open>m\<close> in 1..360 the balance after month \<open>m\<close> is the balance
  after month \<open>m - 1\<close> plus the installment of month \<open>m\<close>, multiplied by \<open>1 + r\<close> with
  \<open>r = (1 + annual_return) powr (1/12) - 1\<close>; before month 1 the balance is the initial
  investment. The state after month \<open>m\<close> is an intermediate state of the full loop: the
  remaining iterations \<open>m + 1, \<dots>, 360\<close> run from it.
\<close>

theorem C1_balance_recurrence:
  assumes "m \<in> {1..months}"
  shows "current_balance (state_after i p e a 0) = i \<and>
         current_balance (state_after i p e a m) =
           (current_balance (state_after i p e a (m - 1)) +
            current_monthly_installment (state_after i p e a m))
           * (1 + ((1 + a) powr (1 / 12) - 1)) \<and>
         state_after i p e a months =
           fold (loop_body e a) [m + 1..<months + 1] (state_after i p e a m)"
proof -
  from assms obtain k where k: "m = Suc k"
    by (cases m) auto
  have "current_balance (state_after i p e a 0) = i"
    by (simp add: state_after_0 initial_state_def)
  moreover have "current_balance (state_after i p e a m) =
           (current_balance (state_after i p e a (m - 1)) +
            current_monthly_installment (state_after i p e a m))
           * (1 + ((1 + a) powr (1 / 12) - 1))"
    unfolding k by (simp add: balance_state_after_Suc growth_def)
  moreover have "state_after i p e a months =
           fold (loop_body e a) [m + 1..<months + 1] (state_after i p e a m)"
    unfolding state_after_def using assms by (intro run_loop_resume) simp
  ultimately show ?thesis by blast
qed

theorem C1_balance_recurrence_witness:
  "current_balance (state_after 0 1000 0 0.06 1) =
     (current_balance (state_after 0 1000 0 0.06 0) +
      current_monthly_installment (state_after 0 1000 0 0.06 1))
     * (1 + ((1 + 0.06) powr (1 / 12) - 1))"
  using C1_balance_recurrence [of 1 0 1000 0 "0.06"] by (simp add: months_def)

text \<open>
  Claim C2. For every month \<open>m\<close> in 1..360 the installment used in month \<open>m\<close> is the
  previous one multiplied by \<open>1 + escalation_rate\<close> when \<open>m > 1\<close> and \<open>m - 1\<close> is divisible
  by 12, that is exactly at the months 13, 25, 37, \<dots>, and the previous one unchanged in
  every other month; so it is the starting installment times the escalation factor once
  per completed block of 12 months.
\<close>

theorem C2_installment_escalation:
  assumes "m \<in> {1..months}"
  shows "current_monthly_installment (state_after i p e a 0) = p \<and>
         current_monthly_installment (state_after i p e a m) =
           (if m > 1 \<and> (m - 1) mod 12 = 0
            then current_monthly_installment (state_after i p e a (m - 1)) * (1 + e)
            else current_monthly_installment (state_after i p e a (m - 1))) \<and>
         ((m > 1 \<and> (m - 1) mod 12 = 0) \<longleftrightarrow> (\<exists>k\<ge>1. m = 12 * k + 1)) \<and>
         current_monthly_installment (state_after i p e a m) = p * (1 + e) ^ ((m - 1) div 12)"
proof -
  from assms obtain k where k: "m = Suc k"
    by (cases m) auto
  have "current_monthly_installment (state_after i p e a 0) = p"
    by (simp add: state_after_0 initial_state_def)
  moreover have "current_monthly_installment (state_after i p e a m) =
           (if m > 1 \<and> (m - 1) mod 12 = 0
            then current_monthly_installment (state_after i p e a (m - 1)) * (1 + e)
            else current_monthly_installment (state_after i p e a (m - 1)))"
    unfolding k state_after_Suc installment_loop_body by simp
  ultimately show ?thesis
    using escalation_months [of m] installment_state_after [of i p e a m] by blast
qed

theorem C2_installment_escalation_witness:
  "current_monthly_installment (state_after 0 1000 (1 / 10) 0.06 13) =
     current_monthly_installment (state_after 0 1000 (1 / 10) 0.06 12) * (1 + 1 / 10) \<and>
   current_monthly_installment (state_after 0 1000 (1 / 10) 0.06 14) =
     current_monthly_installment (state_after 0 1000 (1 / 10) 0.06 13) \<and>
   current_monthly_installment (state_after 0 1000 (1 / 10) 0.06 13) = 1100"
  using C2_installment_escalation [of 13 0 1000 "1 / 10" "0.06"]
    C2_installment_escalation [of 14 0 1000 "1 / 10" "0.06"]
  by (simp add: months_def)

text \<open>
  Claim C3, as amended. For initial investment 0, monthly installment 1000, escalation 0%
  and the 6% profile, the total amount of the year-1 snapshot is 12,386.53 to the cent:
  twelve contributions, each compounded from its own month on at the monthly factor
  \<open>1.06 powr (1/12)\<close>.
\<close>

theorem C3_year1_total_amended:
  "Year (df (calculate 0 1000 0 Cash) ! 0) = 1 \<and>
   \<bar>Total_Amount (df (calculate 0 1000 0 Cash) ! 0) - 12386.53\<bar> < 0.005"
  unfolding abs_diff_less_iff using calculate_example_year1 year1_total_cash by simp

text \<open>
  Claim C3, as stated: the year-1 total of that input is not near 12,335.56. It is more than
  50 away from it.
\<close>

theorem C3_year1_total_counterexample:
  "Year (df (calculate 0 1000 0 Cash) ! 0) = 1 \<and>
   \<not> \<bar>Total_Amount (df (calculate 0 1000 0 Cash) ! 0) - 12335.56\<bar> \<le> 50"
  unfolding abs_le_iff using calculate_example_year1 year1_total_cash by simp

text \<open>
  Claim C4. For every input the loop of \<^verbatim>\<open>investment_calc.py\<close> and the loop of
  \<^verbatim>\<open>investment_calc_branded_v2.py\<close> produce the same list of yearly snapshots, entry by
  entry and field by field, and the two Calculate handlers produce the same outcome.
\<close>

theorem C4_branded_same_projection:
  "projection_branded i p e a = projection i p e a \<and>
   calculate_branded i p e opt = calculate i p e opt"
  by (simp add: projection_branded_eq calculate_branded_def calculate_def)

text \<open>
  Claim C5. A click on Calculate gives the warning, and no projection, if and only if the
  initial investment and the monthly installment are both zero. For every other
  admissible input (both at least 0, one of them positive) it gives no warning and the
  full projection of 30 yearly snapshots. Both scripts behave so.
\<close>

theorem C5_zero_input_validation:
  "((\<exists>w. calculate i p e opt = Warning w) \<longleftrightarrow> i = 0 \<and> p = 0) \<and>
   (i = 0 \<and> p = 0 \<longrightarrow> calculate i p e opt = Warning warning_text) \<and>
   (0 \<le> i \<and> 0 \<le> p \<and> (0 < i \<or> 0 < p) \<longrightarrow>
      calculate i p e opt =
        Results (projection i p (e / 100) (return_options opt))
          (display_df (projection i p (e / 100) (return_options opt)))
          (stacked_df (projection i p (e / 100) (return_options opt))) \<and>
      length (projection i p (e / 100) (return_options opt)) = 30 \<and>
      map Year (projection i p (e / 100) (return_options opt)) = [1..<31]) \<and>
   calculate_branded i p e opt = calculate i p e opt"
proof (intro conjI impI)
  show "(\<exists>w. calculate i p e opt = Warning w) \<longleftrightarrow> i = 0 \<and> p = 0"
    by (cases "i = 0 \<and> p = 0") (auto simp: calculate_zero calculate_nonzero)
  show "calculate i p e opt = Warning warning_text" if "i = 0 \<and> p = 0"
    using that by (simp add: calculate_zero)
  show "calculate i p e opt =
        Results (projection i p (e / 100) (return_options opt))
          (display_df (projection i p (e / 100) (return_options opt)))
          (stacked_df (projection i p (e / 100) (return_options opt)))"
    if "0 \<le> i \<and> 0 \<le> p \<and> (0 < i \<or> 0 < p)"
    using that by (intro calculate_nonzero) auto
  show "length (projection i p (e / 100) (return_options opt)) = 30"
    by (rule projection_length)
  show "map Year (projection i p (e / 100) (return_options opt)) = [1..<31]"
    by (rule projection_years)
  show "calculate_branded i p e opt = calculate i p e opt"
    by (simp add: projection_branded_eq calculate_branded_def calculate_def)
qed

theorem C5_zero_input_validation_witness:
  "calculate 0 0 6 Cash = Warning warning_text \<and>
   calculate 0 1000 6 Cash \<noteq> Warning warning_text \<and>
   length (df (calculate 0 1000 6 Cash)) = 30"
  using C5_zero_input_validation [of 0 0 6 Cash] C5_zero_input_validation [of 0 1000 6 Cash]
  by simp

text \<open>
  Claim C6. In every yearly snapshot of the projection, for every input, the investment
  return is the total amount minus the total capital contributed.
\<close>

theorem C6_return_is_total_minus_capital:
  "\<forall>row \<in> set (projection i p e a).
     Investment_Return row = Total_Amount row - Total_Capital_Contributed row"
  by (auto simp: projection_eq snapshot_of_def)

theorem C6_return_is_total_minus_capital_witness:
  "Investment_Return (projection 0 1000 0 0.06 ! 0) =
     Total_Amount (projection 0 1000 0 0.06 ! 0) -
     Total_Capital_Contributed (projection 0 1000 0 0.06 ! 0)"
proof -
  have "projection 0 1000 0 0.06 ! 0 \<in> set (projection 0 1000 0 0.06)"
    by (rule nth_mem) (simp add: projection_length)
  then show ?thesis
    using C6_return_is_total_minus_capital [of 0 1000 0 "0.06"] by blast
qed

text \<open>
  Claim C7. For non-negative initial investment, monthly installment and escalation rate,
  and every year \<open>y\<close> in 1..29, the total capital contributed in the snapshot of year \<open>y\<close>
  is at most that in the snapshot of year \<open>y + 1\<close>.
\<close>

theorem C7_capital_monotone:
  assumes "0 \<le> i" "0 \<le> p" "0 \<le> e" "y \<in> {1..29}"
  shows "Year (projection i p e a ! (y - 1)) = y \<and>
         Year (projection i p e a ! y) = y + 1 \<and>
         Total_Capital_Contributed (projection i p e a ! (y - 1)) \<le>
         Total_Capital_Contributed (projection i p e a ! y)"
proof -
  from assms(4) have y: "1 \<le> y" "y \<le> 30" and y': "1 \<le> y + 1" "y + 1 \<le> 30"
    by simp_all
  have a: "projection i p e a ! (y - 1) = snapshot_of (12 * y) (state_after i p e a (12 * y))"
    by (rule projection_nth [OF y])
  have b: "projection i p e a ! y =
           snapshot_of (12 * (y + 1)) (state_after i p e a (12 * (y + 1)))"
    using projection_nth [OF y', of i p e a] by simp
  have "total_capital (state_after i p e a (12 * y)) \<le>
        total_capital (state_after i p e a (12 * (y + 1)))"
    by (rule capital_mono [OF assms(2,3)]) simp
  then show ?thesis
    unfolding a b by (simp add: snapshot_of_def)
qed

theorem C7_capital_monotone_witness:
  "Total_Capital_Contributed (projection 0 1000 0 0.06 ! 0) \<le>
   Total_Capital_Contributed (projection 0 1000 0 0.06 ! 1)"
  using C7_capital_monotone [of 0 1000 0 1 "0.06"] by simp

text \<open>
  Claim C8. For every admissible input that is not all zero, the loop runs over exactly 360
  months and the data frame holds exactly 30 snapshots whose years are 1, 2, \<dots>, 30 in
  this order.
\<close>

theorem C8_thirty_snapshots:
  assumes "0 \<le> i" "0 \<le> p" "0 < i \<or> 0 < p"
  shows "length [1..<months + 1] = 360 \<and>
         projection i p (e / 100) (return_options opt) =
           data (fold (loop_body (e / 100) (return_options opt)) [1..<months + 1]
                   (initial_state i p)) \<and>
         df (calculate i p e opt) = projection i p (e / 100) (return_options opt) \<and>
         length (df (calculate i p e opt)) = 30 \<and>
         map Year (df (calculate i p e opt)) = [1..<31]"
proof -
  from assms have nz: "\<not> (i = 0 \<and> p = 0)" by auto
  have c: "df (calculate i p e opt) = projection i p (e / 100) (return_options opt)"
    by (simp add: calculate_nonzero [OF nz])
  show ?thesis
  proof (intro conjI)
    show "length [1..<months + 1] = 360"
      by (simp add: months_def)
    show "projection i p (e / 100) (return_options opt) =
           data (fold (loop_body (e / 100) (return_options opt)) [1..<months + 1]
                   (initial_state i p))"
      by (simp add: projection_def state_after_def run_loop_def)
    show "df (calculate i p e opt) = projection i p (e / 100) (return_options opt)"
      by (rule c)
    show "length (df (calculate i p e opt)) = 30"
      by (simp only: c projection_length)
    show "map Year (df (calculate i p e opt)) = [1..<31]"
      by (simp only: c projection_years)
  qed
qed

theorem C8_thirty_snapshots_witness:
  "length (df (calculate 0 1000 6 Cash)) = 30 \<and>
   map Year (df (calculate 0 1000 6 Cash)) = [1..<31]"
proof -
  have h: "(0::real) \<le> 0" "(0::real) \<le> 1000" "(0::real) < 0 \<or> (0::real) < 1000"
    by simp_all
  from C8_thirty_snapshots [OF h, of 6 Cash] show ?thesis
    by blast
qed

text \<open>
  Claim C9. For every admissible input that is not all zero, the milestone summary consists
  of the snapshots of the years 1, 3, 5, 10, 20 and 30, these six and in this order, each
  with the total amount of its year.
\<close>

theorem C9_milestone_summary:
  assumes "0 \<le> i" "0 \<le> p" "0 < i \<or> 0 < p"
  shows "summary (calculate i p e opt) =
           map (\<lambda>y. (y, Total_Amount (df (calculate i p e opt) ! (y - 1)))) [1, 3, 5, 10, 20, 30] \<and>
         milestone_df (df (calculate i p e opt)) =
           map (\<lambda>y. df (calculate i p e opt) ! (y - 1)) [1, 3, 5, 10, 20, 30] \<and>
         map Year (milestone_df (df (calculate i p e opt))) = [1, 3, 5, 10, 20, 30] \<and>
         milestone_df (df (calculate i p e opt)) =
           filter (\<lambda>row. Year row \<in> {1, 3, 5, 10, 20, 30}) (df (calculate i p e opt))"
proof -
  from assms have nz: "\<not> (i = 0 \<and> p = 0)" by auto
  let ?d = "projection i p (e / 100) (return_options opt)"
  have d: "df (calculate i p e opt) = ?d" and s: "summary (calculate i p e opt) = display_df ?d"
    by (simp_all add: calculate_nonzero [OF nz])
  let ?f = "\<lambda>y. snapshot_of (12 * y) (state_after i p (e / 100) (return_options opt) (12 * y))"
  have f: "milestone_df ?d = map ?f milestones"
    by (rule milestone_df_projection)
  have m: "milestone_df ?d = map (\<lambda>y. ?d ! (y - 1)) milestones"
    unfolding f by (rule map_cong) (simp_all only: milestone_rows)
  have y: "map Year (milestone_df ?d) = milestones"
    unfolding f by (simp add: year_snapshot_of comp_def)
  have t: "display_df ?d = map (\<lambda>y. (y, Total_Amount (?d ! (y - 1)))) milestones"
  proof -
    have "display_df ?d = map (\<lambda>y. (y, Total_Amount (?f y))) milestones"
      unfolding display_df_def f by (simp add: comp_def year_snapshot_of)
    also have "\<dots> = map (\<lambda>y. (y, Total_Amount (?d ! (y - 1)))) milestones"
      by (rule map_cong) (simp_all only: milestone_rows)
    finally show ?thesis .
  qed
  have k: "milestone_df ?d = filter (\<lambda>row. Year row \<in> {1, 3, 5, 10, 20, 30}) ?d"
    by (simp add: milestone_df_def milestones_def)
  show ?thesis
    unfolding d s using m y t k by (simp only: milestones_def simp_thms)
qed

theorem C9_milestone_summary_witness:
  "map fst (summary (calculate 0 1000 6 Cash)) = [1, 3, 5, 10, 20, 30]"
proof -
  have h: "(0::real) \<le> 0" "(0::real) \<le> 1000" "(0::real) < 0 \<or> (0::real) < 1000"
    by simp_all
  from C9_milestone_summary [OF h, of 6 Cash] show ?thesis
    by simp
qed

text \<open>
  Claim C10. For non-negative initial investment, monthly installment and escalation rate,
  and an annual return of 0.06, 0.10 or 0.13, every yearly snapshot has a total amount of
  at least the total capital contributed, so its investment return is not negative (amounts
  read as exact reals).
\<close>

theorem C10_return_nonnegative:
  assumes "0 \<le> i" "0 \<le> p" "0 \<le> e" "a \<in> {0.06, 0.10, 0.13}"
  shows "\<forall>row \<in> set (projection i p e a).
           Total_Capital_Contributed row \<le> Total_Amount row \<and> 0 \<le> Investment_Return row"
proof
  fix row
  assume "row \<in> set (projection i p e a)"
  then obtain y where row: "row = snapshot_of (12 * y) (state_after i p e a (12 * y))"
    by (auto simp: projection_eq)
  have "0 \<le> a" by (rule return_options_nonneg [OF assms(4)])
  from capital_le_balance [OF assms(1,2,3) this, of "12 * y"]
  show "Total_Capital_Contributed row \<le> Total_Amount row \<and> 0 \<le> Investment_Return row"
    unfolding row by (simp add: snapshot_of_def)
qed

theorem C10_return_nonnegative_witness:
  "Total_Capital_Contributed (projection 0 1000 0 0.06 ! 0) \<le>
     Total_Amount (projection 0 1000 0 0.06 ! 0) \<and>
   0 \<le> Investment_Return (projection 0 1000 0 0.06 ! 0)"
proof -
  have "projection 0 1000 0 0.06 ! 0 \<in> set (projection 0 1000 0 0.06)"
    by (rule nth_mem) (simp add: projection_length)
  then show ?thesis
    using C10_return_nonnegative [of 0 1000 0 "0.06"] by simp
qed

end
